theory Spec2Isabelle
  imports Main "HOL-Library.Sublist" "HOL-Library.Word"
begin

section \<open>The file system the program runs on\<close>

text \<open>
  srcinit.py keeps a zip archive of templates in a per-user data directory and unpacks one
  template of it into a destination directory. Everything it does is a sequence of calls of
  \<^verbatim>\<open>os\<close>, \<^verbatim>\<open>shutil\<close>, \<^verbatim>\<open>zipfile\<close>, \<^verbatim>\<open>requests\<close> and \<^verbatim>\<open>input\<close>, so
  the model is a file system with these calls as primitives and the four functions of the
  script written over them, statement by statement.

  A path is the list of its components from the root (the operating system's resolution of
  an absolute path string); \<open>[]\<close> is the root. A file system maps a path to a node.
  Console output (\<^verbatim>\<open>print_normal\<close>, \<^verbatim>\<open>print_verbose\<close>), the progress bar and the elapsed
  time change no outcome and are left out.
\<close>

type_synonym byte = "8 word"
type_synonym path = "string list"

datatype node = File "byte list" | Dir

type_synonym fs = "path \<Rightarrow> node option"

text \<open>The exceptions of Python that the calls of the script can raise.\<close>

datatype error =
    FileNotFoundError
  | IsADirectoryError
  | NotADirectoryError
  | FileExistsError
  | BadZipFile
  | KeyError
  | ValueError
  | EOFError
  | ChunkedEncodingError
  | KeyboardInterruptError

definition isfile :: "fs \<Rightarrow> path \<Rightarrow> bool" where
  "isfile f p = (case f p of Some (File _) \<Rightarrow> True | _ \<Rightarrow> False)"

definition isdir :: "fs \<Rightarrow> path \<Rightarrow> bool" where
  "isdir f p = (p = [] \<or> f p = Some Dir)"

text \<open>\<^verbatim>\<open>os.remove(p)\<close>: unlinks a regular file.\<close>

definition os_remove :: "fs \<Rightarrow> path \<Rightarrow> error + fs" where
  "os_remove f p =
     (case f p of
        None \<Rightarrow> Inl FileNotFoundError
      | Some Dir \<Rightarrow> Inl IsADirectoryError
      | Some (File _) \<Rightarrow> Inr (f(p := None)))"

text \<open>
  \<^verbatim>\<open>os.rename(src, dst)\<close> for a regular file \<open>src\<close>: the target is replaced when it is a
  regular file, the call fails when the target is a directory or the target's directory
  does not exist. The script renames regular files only (each call follows an
  \<^verbatim>\<open>os.path.isfile\<close> test of the source); for a directory as source the model raises.
\<close>

definition os_rename :: "fs \<Rightarrow> path \<Rightarrow> path \<Rightarrow> error + fs" where
  "os_rename f src dst =
     (case f src of
        None \<Rightarrow> Inl FileNotFoundError
      | Some Dir \<Rightarrow> Inl IsADirectoryError
      | Some (File c) \<Rightarrow>
          (if f dst = Some Dir then Inl IsADirectoryError
           else if \<not> isdir f (butlast dst) then Inl FileNotFoundError
           else Inr (f(src := None, dst := Some (File c)))))"

text \<open>
  \<^verbatim>\<open>os.makedirs(p, exist_ok=True)\<close>: walks down from the root and creates every missing
  directory on the way; a regular file on the way makes it fail, with nothing created.
\<close>

fun makedirs_from :: "fs \<Rightarrow> path \<Rightarrow> string list \<Rightarrow> error + fs" where
  "makedirs_from f base [] = Inr f"
| "makedirs_from f base (c # cs) =
     (case f (base @ [c]) of
        Some (File _) \<Rightarrow> Inl (if cs = [] then FileExistsError else NotADirectoryError)
      | _ \<Rightarrow> makedirs_from (f(base @ [c] := Some Dir)) (base @ [c]) cs)"

definition makedirs :: "fs \<Rightarrow> path \<Rightarrow> error + fs" where
  "makedirs f p = makedirs_from f [] p"

text \<open>
  \<^verbatim>\<open>open(p, "wb")\<close> followed by writing \<open>bs\<close> and closing: creates or truncates the regular
  file \<open>p\<close>. It fails when \<open>p\<close> names a directory (the root, a path string that ends with a
  separator, which leaves an empty last component, or an existing directory) and when the
  directory that is to hold the file does not exist.
\<close>

definition open_wb :: "fs \<Rightarrow> path \<Rightarrow> byte list \<Rightarrow> error + fs" where
  "open_wb f p bs =
     (if p = [] \<or> last p = [] \<or> f p = Some Dir then Inl IsADirectoryError
      else if isfile f (butlast p) then Inl NotADirectoryError
      else if \<not> isdir f (butlast p) then Inl FileNotFoundError
      else Inr (f(p := Some (File bs))))"

text \<open>\<^verbatim>\<open>shutil.rmtree(p, ignore_errors=True)\<close>: removes \<open>p\<close> and all that is below it.\<close>

definition rmtree :: "fs \<Rightarrow> path \<Rightarrow> fs" where
  "rmtree f p = (\<lambda>q. if prefix p q then None else f q)"

section \<open>What the outside supplies to a call\<close>

text \<open>
  \<^verbatim>\<open>requests.get(SYNC_REMOTE_URL, stream=True)\<close> with the read of the content-length
  header either raises \<^verbatim>\<open>RequestException\<close>, is interrupted from the keyboard, finds a
  header that \<^verbatim>\<open>int\<close> cannot read, or gives a response; the response's
  \<^verbatim>\<open>iter_content\<close> yields chunks and then ends or raises.
\<close>

datatype fetch =
    RequestException
  | KeyboardInterrupt
  | BadContentLength
  | Response "byte list list" "error option"

text \<open>
  \<open>answer\<close> is what \<^verbatim>\<open>input(...)\<close> returns (\<open>None\<close>: the console is closed and
  \<^verbatim>\<open>input\<close> raises \<^verbatim>\<open>EOFError\<close>); \<open>remote\<close> is the outcome of the HTTP request.
\<close>

record io =
  answer :: "string option"
  remote :: fetch

text \<open>
  The state of a run: the file system, and the number of \<^verbatim>\<open>ZipFile\<close> objects that have
  been opened and not closed.
\<close>

record world =
  files :: fs
  open_archives :: nat

section \<open>Strings\<close>

text \<open>\<^verbatim>\<open>str.lower()\<close> on the ASCII letters.\<close>

definition lower_char :: "char \<Rightarrow> char" where
  "lower_char c =
     (case map_of (zip ''ABCDEFGHIJKLMNOPQRSTUVWXYZ'' ''abcdefghijklmnopqrstuvwxyz'') c of
        Some l \<Rightarrow> l
      | None \<Rightarrow> c)"

definition lower :: "string \<Rightarrow> string" where
  "lower s = map lower_char s"

text \<open>\<^verbatim>\<open>s.removesuffix("/")\<close>.\<close>

definition removesuffix_slash :: "string \<Rightarrow> string" where
  "removesuffix_slash s = (if s \<noteq> [] \<and> last s = CHR ''/'' then butlast s else s)"

text \<open>
  \<^verbatim>\<open>os.path.join(destination, rel)\<close>, resolved to components: \<open>rel\<close> is cut at the
  separators, empty components between separators are dropped, and a separator at the end
  of \<open>rel\<close> leaves an empty last component. When \<open>rel\<close> starts with a separator the
  result is \<open>rel\<close> alone. The components \<^verbatim>\<open>.\<close> and \<^verbatim>\<open>..\<close> are not resolved.
\<close>

fun split_slash :: "string \<Rightarrow> string \<Rightarrow> string list" where
  "split_slash cur [] = [cur]"
| "split_slash cur (c # cs) =
     (if c = CHR ''/'' then cur # split_slash [] cs else split_slash (cur @ [c]) cs)"

definition os_path_join :: "path \<Rightarrow> string \<Rightarrow> path" where
  "os_path_join destination rel =
     (let parts = split_slash [] rel;
          dirs = filter (\<lambda>x. x \<noteq> []) (butlast parts)
      in if rel \<noteq> [] \<and> hd rel = CHR ''/'' then dirs @ [last parts]
         else destination @ dirs @ [last parts])"

section \<open>The archive\<close>

text \<open>
  A member of the archive: its name as stored and its bytes. \<^verbatim>\<open>ZipInfo.is_dir()\<close> is
  true of the names that end with the separator.
\<close>

record zip_entry =
  filename :: string
  content :: "byte list"

definition is_dir :: "zip_entry \<Rightarrow> bool" where
  "is_dir z = (filename z \<noteq> [] \<and> last (filename z) = CHR ''/'')"

text \<open>
  \<^verbatim>\<open>ZipFile(p, "r")\<close>: the decoding of the bytes of a file into the members of the archive
  is the parameter \<open>unzip\<close> (\<open>None\<close>: the bytes are no zip archive). The object counts as
  open from here until \<^verbatim>\<open>close()\<close>.
\<close>

definition ZipFile ::
  "(byte list \<Rightarrow> zip_entry list option) \<Rightarrow> path \<Rightarrow> world \<Rightarrow> (error + zip_entry list) \<times> world"
where
  "ZipFile unzip p w =
     (case files w p of
        None \<Rightarrow> (Inl FileNotFoundError, w)
      | Some Dir \<Rightarrow> (Inl IsADirectoryError, w)
      | Some (File bs) \<Rightarrow>
          (case unzip bs of
             None \<Rightarrow> (Inl BadZipFile, w)
           | Some zs \<Rightarrow> (Inr zs, w\<lparr>open_archives := open_archives w + 1\<rparr>)))"

definition zip_close :: "world \<Rightarrow> world" where
  "zip_close w = w\<lparr>open_archives := open_archives w - 1\<rparr>"

text \<open>\<^verbatim>\<open>zip.open(name)\<close> reads the last member stored under the name.\<close>

definition zip_open :: "zip_entry list \<Rightarrow> string \<Rightarrow> byte list option" where
  "zip_open zs nm =
     (case filter (\<lambda>z. filename z = nm) zs of
        [] \<Rightarrow> None
      | x # xs \<Rightarrow> Some (content (last (x # xs))))"

section \<open>The script\<close>

text \<open>
  \<open>SYNC_LOCAL_DIR\<close> is what \<^verbatim>\<open>platformdirs.user_data_dir\<close> returns; it is the first
  argument \<open>d\<close> of every function below.
\<close>

definition SYNC_LOCAL_FILE :: "path \<Rightarrow> path" where
  "SYNC_LOCAL_FILE d = d @ [''templates.zip'']"

definition SYNC_LOCAL_FILE_OLD :: "path \<Rightarrow> path" where
  "SYNC_LOCAL_FILE_OLD d = butlast (SYNC_LOCAL_FILE d) @ [last (SYNC_LOCAL_FILE d) @ ''.old'']"

text \<open>The test of the answer to a confirmation, lines 70 and 140.\<close>

definition declined :: "string \<Rightarrow> bool" where
  "declined s = (length s < 1 \<or> lower s = ''n'')"

text \<open>Lines 118 to 120: the chunks are written one after the other.\<close>

fun write_chunks :: "byte list list \<Rightarrow> byte list \<Rightarrow> byte list" where
  "write_chunks [] written = written"
| "write_chunks (chunk # chunks) written = write_chunks chunks (written @ chunk)"

text \<open>Lines 104 to 124 of \<^verbatim>\<open>sync\<close>: the request and the streaming into the current archive.\<close>

definition download :: "path \<Rightarrow> io \<Rightarrow> world \<Rightarrow> (error + bool) \<times> world" where
  "download d e w =
     (case remote e of
        RequestException \<Rightarrow> (Inr False, w)
      | KeyboardInterrupt \<Rightarrow> (Inr True, w)
      | BadContentLength \<Rightarrow> (Inl ValueError, w)
      | Response chunks broken \<Rightarrow>
          (case open_wb (files w) (SYNC_LOCAL_FILE d) (write_chunks chunks []) of
             Inl err \<Rightarrow> (Inl err, w)
           | Inr f \<Rightarrow>
               (case broken of
                  Some err \<Rightarrow> (Inl err, w\<lparr>files := f\<rparr>)
                | None \<Rightarrow> (Inr True, w\<lparr>files := f\<rparr>))))"

text \<open>Lines 58 to 81 of \<^verbatim>\<open>sync\<close>: the branch \<^verbatim>\<open>rollback=True\<close>.\<close>

definition rollback :: "path \<Rightarrow> io \<Rightarrow> world \<Rightarrow> (error + bool) \<times> world" where
  "rollback d e w =
     (if \<not> isfile (files w) (SYNC_LOCAL_FILE_OLD d) then (Inr True, w)
      else
        (case answer e of
           None \<Rightarrow> (Inl EOFError, w)
         | Some override \<Rightarrow>
             (if declined override then (Inr True, w)
              else
                (case (if isfile (files w) (SYNC_LOCAL_FILE d)
                       then os_remove (files w) (SYNC_LOCAL_FILE d) else Inr (files w)) of
                   Inl err \<Rightarrow> (Inl err, w)
                 | Inr f1 \<Rightarrow>
                     (case os_rename f1 (SYNC_LOCAL_FILE_OLD d) (SYNC_LOCAL_FILE d) of
                        Inl err \<Rightarrow> (Inl err, w\<lparr>files := f1\<rparr>)
                      | Inr f2 \<Rightarrow> (Inr True, w\<lparr>files := f2\<rparr>))))))"

text \<open>Lines 87 to 97 of \<^verbatim>\<open>sync\<close>: the current archive becomes the previous one.\<close>

definition retire_current :: "path \<Rightarrow> fs \<Rightarrow> (error option) \<times> fs" where
  "retire_current d f =
     (if isfile f (SYNC_LOCAL_FILE d) then
        (case (if isfile f (SYNC_LOCAL_FILE_OLD d)
               then os_remove f (SYNC_LOCAL_FILE_OLD d) else Inr f) of
           Inl err \<Rightarrow> (Some err, f)
         | Inr f1 \<Rightarrow>
             (case os_rename f1 (SYNC_LOCAL_FILE d) (SYNC_LOCAL_FILE_OLD d) of
                Inl err \<Rightarrow> (Some err, f1)
              | Inr f2 \<Rightarrow> (None, f2)))
      else if \<not> isdir f d then
        (case makedirs f d of
           Inl err \<Rightarrow> (Some err, f)
         | Inr f1 \<Rightarrow> (None, f1))
      else (None, f))"

definition sync :: "path \<Rightarrow> io \<Rightarrow> bool \<Rightarrow> world \<Rightarrow> (error + bool) \<times> world" where
  "sync d e rb w =
     (if rb then rollback d e w
      else
        (case retire_current d (files w) of
           (Some err, f) \<Rightarrow> (Inl err, w\<lparr>files := f\<rparr>)
         | (None, f) \<Rightarrow> download d e (w\<lparr>files := f\<rparr>)))"

text \<open>
  \<^verbatim>\<open>reset\<close>, lines 127 to 147. The bare \<^verbatim>\<open>return\<close> of line 132 returns \<^verbatim>\<open>None\<close>, the
  other two returns a boolean: the result is a \<open>bool option\<close>.
\<close>

definition reset :: "path \<Rightarrow> io \<Rightarrow> world \<Rightarrow> (error + bool option) \<times> world" where
  "reset d e w =
     (if \<not> isfile (files w) (SYNC_LOCAL_FILE d) then (Inr None, w)
      else
        (case answer e of
           None \<Rightarrow> (Inl EOFError, w)
         | Some question \<Rightarrow>
             (if declined question then (Inr (Some False), w)
              else (Inr (Some True), w\<lparr>files := rmtree (files w) d\<rparr>))))"

text \<open>Lines 166 to 172 of \<^verbatim>\<open>list\<close>: the loop over the members, with its accumulator.\<close>

fun collect_templates :: "zip_entry list \<Rightarrow> string list \<Rightarrow> string list" where
  "collect_templates [] template_list = template_list"
| "collect_templates (zip_info # rest) template_list =
     (if \<not> is_dir zip_info then collect_templates rest template_list
      else collect_templates rest (template_list @ [removesuffix_slash (filename zip_info)]))"

text \<open>
  Lines 159 to 175 of \<^verbatim>\<open>list\<close>: the archive is opened, its members are read, it is
  closed, and the names are collected.
\<close>

definition read_catalog ::
  "path \<Rightarrow> (byte list \<Rightarrow> zip_entry list option) \<Rightarrow> world \<Rightarrow> (error + string list) \<times> world"
where
  "read_catalog d unzip w =
     (case ZipFile unzip (SYNC_LOCAL_FILE d) w of
        (Inl err, w1) \<Rightarrow> (Inl err, w1)
      | (Inr zip_info_list, w1) \<Rightarrow> (Inr (collect_templates zip_info_list []), zip_close w1))"

text \<open>\<^verbatim>\<open>list\<close>, lines 150 to 175.\<close>

definition list_templates ::
  "path \<Rightarrow> (byte list \<Rightarrow> zip_entry list option) \<Rightarrow> io \<Rightarrow> world \<Rightarrow> (error + string list) \<times> world"
where
  "list_templates d unzip e w =
     (if \<not> isfile (files w) (SYNC_LOCAL_FILE d) then
        (case sync d e False w of
           (Inl err, w1) \<Rightarrow> (Inl err, w1)
         | (Inr synced, w1) \<Rightarrow>
             (if \<not> synced then (Inr [], w1) else read_catalog d unzip w1))
      else read_catalog d unzip w)"

text \<open>
  Lines 196 to 209 of \<^verbatim>\<open>generate\<close>: the loop over \<^verbatim>\<open>zip.namelist()\<close>. An exception
  leaves the loop with the files written so far.
\<close>

fun extract_entries :: "zip_entry list \<Rightarrow> string \<Rightarrow> path \<Rightarrow> string list \<Rightarrow> fs \<Rightarrow> error option \<times> fs" where
  "extract_entries zs name destination [] f = (None, f)"
| "extract_entries zs name destination (entry # rest) f =
     (if \<not> prefix name entry \<or> entry = name then extract_entries zs name destination rest f
      else
        (case makedirs f destination of
           Inl err \<Rightarrow> (Some err, f)
         | Inr f1 \<Rightarrow>
             (case zip_open zs entry of
                None \<Rightarrow> (Some KeyError, f1)
              | Some bs \<Rightarrow>
                  (case open_wb f1 (os_path_join destination (drop (length name) entry)) bs of
                     Inl err \<Rightarrow> (Some err, f1)
                   | Inr f2 \<Rightarrow> extract_entries zs name destination rest f2))))"

text \<open>\<^verbatim>\<open>generate\<close>, lines 178 to 213.\<close>

definition generate ::
  "path \<Rightarrow> (byte list \<Rightarrow> zip_entry list option) \<Rightarrow> io \<Rightarrow> string \<Rightarrow> path \<Rightarrow> world
     \<Rightarrow> (error + bool) \<times> world"
where
  "generate d unzip e template destination w =
     (case list_templates d unzip e w of
        (Inl err, w1) \<Rightarrow> (Inl err, w1)
      | (Inr template_list, w1) \<Rightarrow>
          (if template \<notin> set template_list then (Inr False, w1)
           else
             (case ZipFile unzip (SYNC_LOCAL_FILE d) w1 of
                (Inl err, w2) \<Rightarrow> (Inl err, w2)
              | (Inr zs, w2) \<Rightarrow>
                  (case extract_entries zs (template @ ''/'') destination (map filename zs) (files w2) of
                     (Some err, f) \<Rightarrow> (Inl err, w2\<lparr>files := f\<rparr>)
                   | (None, f) \<Rightarrow> (Inr True, w2\<lparr>files := f\<rparr>)))))"

text \<open>
  The commands \<^verbatim>\<open>sync\<close>, \<^verbatim>\<open>sync --rollback\<close> and \<^verbatim>\<open>reset\<close> of \<^verbatim>\<open>main\<close>, lines 255
  to 258: the result of the call is dropped, the state stays. An exception ends the process
  and leaves the state it was raised in.
\<close>

datatype command = CmdSync | CmdRollback | CmdReset

fun step :: "path \<Rightarrow> command \<times> io \<Rightarrow> world \<Rightarrow> world" where
  "step d (CmdSync, e) w = snd (sync d e False w)"
| "step d (CmdRollback, e) w = snd (sync d e True w)"
| "step d (CmdReset, e) w = snd (reset d e w)"

definition run :: "path \<Rightarrow> (command \<times> io) list \<Rightarrow> world \<Rightarrow> world" where
  "run d cmds w = fold (step d) cmds w"

section \<open>Properties of the cache directory\<close>

text \<open>The cache is empty: nothing exists below the data directory.\<close>

definition cache_empty :: "path \<Rightarrow> fs \<Rightarrow> bool" where
  "cache_empty d f = (\<forall>p. strict_prefix d p \<longrightarrow> f p = None)"

text \<open>
  The backups of a cache: all that exists below the data directory apart from the current
  archive.
\<close>

definition backups :: "path \<Rightarrow> fs \<Rightarrow> path set" where
  "backups d f = {p. strict_prefix d p \<and> p \<noteq> SYNC_LOCAL_FILE d \<and> f p \<noteq> None}"

section \<open>The catalog in the words of the specification\<close>

text \<open>
  The specification's catalog: the names, without the separator at the end, of the
  directory members whose name without that separator holds no further separator.
\<close>

definition spec_top_level_templates :: "zip_entry list \<Rightarrow> string list" where
  "spec_top_level_templates zs =
     map (\<lambda>z. removesuffix_slash (filename z))
       (filter (\<lambda>z. is_dir z \<and> CHR ''/'' \<notin> set (removesuffix_slash (filename z))) zs)"

section \<open>Example states\<close>

definition data_dir :: path where
  "data_dir = [''var'', ''srcinit'']"

definition fs_nothing :: fs where
  "fs_nothing = (\<lambda>_. None)"

definition fs_dirs :: fs where
  "fs_dirs = ((\<lambda>_. None)([''var''] := Some Dir))(data_dir := Some Dir)"

definition fs_current :: fs where
  "fs_current = fs_dirs(SYNC_LOCAL_FILE data_dir := Some (File [1]))"

definition fs_backup_only :: fs where
  "fs_backup_only = fs_dirs(SYNC_LOCAL_FILE_OLD data_dir := Some (File [2]))"

definition fs_both :: fs where
  "fs_both = fs_current(SYNC_LOCAL_FILE_OLD data_dir := Some (File [2]))"

definition fs_flat :: fs where
  "fs_flat = fs_dirs(SYNC_LOCAL_FILE data_dir := Some (File [2]))"

definition fs_subdir :: fs where
  "fs_subdir = fs_dirs(SYNC_LOCAL_FILE data_dir := Some (File [3]))"

definition world_of :: "fs \<Rightarrow> world" where
  "world_of f = \<lparr>files = f, open_archives = 0\<rparr>"

text \<open>
  Four runs of the outside: the user confirms and the download delivers the bytes 2 in two
  chunks; the user answers \<^verbatim>\<open>n\<close>; the user gives no answer; the request is interrupted
  from the keyboard.
\<close>

definition io_yes :: io where
  "io_yes = \<lparr>answer = Some ''Y'', remote = Response [[], [2]] None\<rparr>"

definition io_no :: io where
  "io_no = \<lparr>answer = Some ''n'', remote = Response [[], [2]] None\<rparr>"

definition io_empty :: io where
  "io_empty = \<lparr>answer = Some [], remote = Response [[], [2]] None\<rparr>"

definition io_interrupt :: io where
  "io_interrupt = \<lparr>answer = Some ''Y'', remote = KeyboardInterrupt\<rparr>"

text \<open>
  Three archives: a template with a file and a file in a subdirectory, a template with one
  file, and a template with a directory member for its subdirectory.
\<close>

definition nested_archive :: "zip_entry list" where
  "nested_archive =
     [\<lparr>filename = ''t/'', content = []\<rparr>,
      \<lparr>filename = ''t/a.txt'', content = [97]\<rparr>,
      \<lparr>filename = ''t/sub/b.txt'', content = [98]\<rparr>]"

definition flat_archive :: "zip_entry list" where
  "flat_archive =
     [\<lparr>filename = ''t/'', content = []\<rparr>,
      \<lparr>filename = ''t/a.txt'', content = [97]\<rparr>]"

definition subdir_archive :: "zip_entry list" where
  "subdir_archive =
     [\<lparr>filename = ''t/'', content = []\<rparr>,
      \<lparr>filename = ''t/sub/'', content = []\<rparr>,
      \<lparr>filename = ''t/sub/b.txt'', content = [98]\<rparr>]"

text \<open>A decoder for the examples: the bytes 1, 2 and 3 stand for the three archives.\<close>

definition toy_unzip :: "byte list \<Rightarrow> zip_entry list option" where
  "toy_unzip bs =
     (if bs = [1] then Some nested_archive
      else if bs = [2] then Some flat_archive
      else if bs = [3] then Some subdir_archive
      else None)"

section \<open>Facts about the paths and the primitives\<close>

lemmas example_defs =
  world_of_def fs_nothing_def fs_dirs_def fs_current_def fs_backup_only_def fs_both_def
  fs_flat_def fs_subdir_def data_dir_def io_yes_def io_no_def io_empty_def io_interrupt_def
  toy_unzip_def nested_archive_def flat_archive_def subdir_archive_def

lemmas script_defs =
  sync_def rollback_def retire_current_def download_def reset_def list_templates_def
  read_catalog_def generate_def ZipFile_def zip_close_def zip_open_def declined_def
  lower_def lower_char_def removesuffix_slash_def is_dir_def os_path_join_def
  SYNC_LOCAL_FILE_def SYNC_LOCAL_FILE_OLD_def

lemmas os_defs =
  isfile_def isdir_def os_remove_def os_rename_def makedirs_def open_wb_def rmtree_def

lemma file_ne_old [simp]:
  "SYNC_LOCAL_FILE d \<noteq> SYNC_LOCAL_FILE_OLD d" "SYNC_LOCAL_FILE_OLD d \<noteq> SYNC_LOCAL_FILE d"
  by (simp_all add: SYNC_LOCAL_FILE_def SYNC_LOCAL_FILE_OLD_def)

lemma butlast_file [simp]:
  "butlast (SYNC_LOCAL_FILE d) = d" "butlast (SYNC_LOCAL_FILE_OLD d) = d"
  by (simp_all add: SYNC_LOCAL_FILE_def SYNC_LOCAL_FILE_OLD_def)

lemma file_not_prefix [simp]:
  "\<not> prefix (SYNC_LOCAL_FILE d) d" "\<not> prefix (SYNC_LOCAL_FILE_OLD d) d"
  by (auto simp: SYNC_LOCAL_FILE_def SYNC_LOCAL_FILE_OLD_def prefix_def)

lemma prefix_file_iff:
  "prefix p (SYNC_LOCAL_FILE d) \<longleftrightarrow> prefix p d \<or> p = SYNC_LOCAL_FILE d"
  "prefix p (SYNC_LOCAL_FILE_OLD d) \<longleftrightarrow> prefix p d \<or> p = SYNC_LOCAL_FILE_OLD d"
  by (auto simp: SYNC_LOCAL_FILE_def SYNC_LOCAL_FILE_OLD_def prefix_snoc)

lemma world_same [simp]:
  "w\<lparr>open_archives := open_archives w\<rparr> = w" "w\<lparr>files := files w\<rparr> = w"
  by simp_all

text \<open>\<^verbatim>\<open>os.makedirs\<close> touches the path it is given and the directories above it only.\<close>

lemma makedirs_from_frame:
  "makedirs_from f base cs = Inr f' \<Longrightarrow> \<not> prefix p (base @ cs) \<Longrightarrow> f' p = f p"
proof (induction cs arbitrary: f base)
  case Nil
  then show ?case by simp
next
  case (Cons c cs)
  have ne: "p \<noteq> base @ [c]" using Cons.prems(2) by auto
  have step: "makedirs_from (f(base @ [c] := Some Dir)) (base @ [c]) cs = Inr f'"
    using Cons.prems(1) by (auto split: option.splits node.splits)
  have "f' p = (f(base @ [c] := Some Dir)) p"
    using Cons.IH [OF step] Cons.prems(2) by simp
  with ne show ?case by simp
qed

lemma makedirs_frame: "makedirs f p = Inr f' \<Longrightarrow> \<not> prefix q p \<Longrightarrow> f' q = f q"
  unfolding makedirs_def using makedirs_from_frame [of f "[]" p f' q] by simp

section \<open>What \<^verbatim>\<open>sync\<close> changes\<close>

lemma download_files:
  "p \<noteq> SYNC_LOCAL_FILE d \<Longrightarrow> files (snd (download d e w)) p = files w p"
  by (auto simp: download_def open_wb_def split: fetch.splits sum.splits option.splits if_splits)

lemma retire_current_cases:
  "retire_current d f = (r, f') \<Longrightarrow>
     (\<forall>p. p \<noteq> SYNC_LOCAL_FILE d \<and> p \<noteq> SYNC_LOCAL_FILE_OLD d \<and> \<not> prefix p d \<longrightarrow> f' p = f p)
   \<and> (isfile f (SYNC_LOCAL_FILE d) \<and> r = None \<longrightarrow>
        f' (SYNC_LOCAL_FILE_OLD d) = f (SYNC_LOCAL_FILE d) \<and> f' (SYNC_LOCAL_FILE d) = None)
   \<and> (isfile f (SYNC_LOCAL_FILE d) \<and> r \<noteq> None \<longrightarrow>
        f' (SYNC_LOCAL_FILE_OLD d) = f (SYNC_LOCAL_FILE_OLD d) \<or> f' (SYNC_LOCAL_FILE_OLD d) = None)
   \<and> (\<not> isfile f (SYNC_LOCAL_FILE d) \<longrightarrow>
        f' (SYNC_LOCAL_FILE_OLD d) = f (SYNC_LOCAL_FILE_OLD d) \<and> f' (SYNC_LOCAL_FILE d) = f (SYNC_LOCAL_FILE d))"
  using makedirs_frame [of f d f' "SYNC_LOCAL_FILE d"]
    makedirs_frame [of f d f' "SYNC_LOCAL_FILE_OLD d"] makedirs_frame [of f d f']
  by (auto simp: retire_current_def os_remove_def os_rename_def isfile_def
      split: if_splits sum.splits option.splits node.splits)

lemma sync_download_frame:
  assumes "\<not> prefix p (SYNC_LOCAL_FILE d)" and "\<not> prefix p (SYNC_LOCAL_FILE_OLD d)"
  shows "files (snd (sync d e False w)) p = files w p"
proof -
  obtain r f where rc: "retire_current d (files w) = (r, f)" by (cases "retire_current d (files w)")
  have ne: "p \<noteq> SYNC_LOCAL_FILE d" "p \<noteq> SYNC_LOCAL_FILE_OLD d" "\<not> prefix p d"
    using assms by (auto simp: prefix_file_iff)
  have f: "f p = files w p" using retire_current_cases [OF rc] ne by simp
  show ?thesis
  proof (cases r)
    case None
    then show ?thesis
      using rc f download_files [of p d e "w\<lparr>files := f\<rparr>"] ne by (simp add: sync_def)
  next
    case (Some err)
    then show ?thesis using rc f by (simp add: sync_def)
  qed
qed

lemma rollback_frame:
  "p \<noteq> SYNC_LOCAL_FILE d \<Longrightarrow> p \<noteq> SYNC_LOCAL_FILE_OLD d \<Longrightarrow>
   files (snd (rollback d e w)) p = files w p"
  by (auto simp: rollback_def os_remove_def os_rename_def isfile_def
      split: option.splits node.splits sum.splits if_splits)

lemma reset_below:
  "files w p = None \<Longrightarrow> files (snd (reset d e w)) p = None"
  by (auto simp: reset_def rmtree_def split: option.splits)

lemma sync_open_archives: "open_archives (snd (sync d e rb w)) = open_archives w"
  by (auto simp: sync_def rollback_def download_def
      split: prod.splits option.splits sum.splits fetch.splits)

lemma declined_empty_or_n: "a = [] \<or> a = ''n'' \<Longrightarrow> declined a"
  by (auto simp: declined_def lower_def lower_char_def)

section \<open>The previous archive after \<^verbatim>\<open>sync\<close>\<close>

text \<open>
  C3, as the script has it. After a \<^verbatim>\<open>sync()\<close> that returns \<^verbatim>\<open>True\<close>: when a current
  archive existed before the call, the previous archive \<^verbatim>\<open>templates.zip.old\<close> exists and
  holds the bytes the current archive held before the call; when no current archive existed
  before the call, the slot of the previous archive is what it was before the call, so a
  previous archive that was there stays and none is created. A previous archive therefore
  exists after the call exactly if a current or a previous archive existed before it.
\<close>

theorem sync_success_backup:
  assumes "sync d e False w = (Inr True, w')"
  shows "(isfile (files w) (SYNC_LOCAL_FILE d) \<longrightarrow>
            files w' (SYNC_LOCAL_FILE_OLD d) = files w (SYNC_LOCAL_FILE d))
       \<and> (\<not> isfile (files w) (SYNC_LOCAL_FILE d) \<longrightarrow>
            files w' (SYNC_LOCAL_FILE_OLD d) = files w (SYNC_LOCAL_FILE_OLD d))
       \<and> (isfile (files w') (SYNC_LOCAL_FILE_OLD d) \<longleftrightarrow>
            isfile (files w) (SYNC_LOCAL_FILE d) \<or> isfile (files w) (SYNC_LOCAL_FILE_OLD d))"
proof -
  obtain r f where rc: "retire_current d (files w) = (r, f)" by (cases "retire_current d (files w)")
  have r: "r = None" and dl: "download d e (w\<lparr>files := f\<rparr>) = (Inr True, w')"
    using assms rc by (auto simp: sync_def split: option.splits)
  have old: "files w' (SYNC_LOCAL_FILE_OLD d) = f (SYNC_LOCAL_FILE_OLD d)"
    using download_files [of "SYNC_LOCAL_FILE_OLD d" d e "w\<lparr>files := f\<rparr>"] dl by simp
  have a: "isfile (files w) (SYNC_LOCAL_FILE d) \<longrightarrow>
            files w' (SYNC_LOCAL_FILE_OLD d) = files w (SYNC_LOCAL_FILE d)"
    and b: "\<not> isfile (files w) (SYNC_LOCAL_FILE d) \<longrightarrow>
            files w' (SYNC_LOCAL_FILE_OLD d) = files w (SYNC_LOCAL_FILE_OLD d)"
    using retire_current_cases [OF rc] r old by auto
  have c: "isfile (files w') (SYNC_LOCAL_FILE_OLD d) \<longleftrightarrow>
            isfile (files w) (SYNC_LOCAL_FILE d) \<or> isfile (files w) (SYNC_LOCAL_FILE_OLD d)"
    using a b by (cases "isfile (files w) (SYNC_LOCAL_FILE d)") (auto simp: isfile_def)
  show ?thesis using a b c by blast
qed

theorem sync_success_backup_witness:
  "sync data_dir io_yes False (world_of fs_current)
     = (Inr True, snd (sync data_dir io_yes False (world_of fs_current)))
   \<and> isfile (files (world_of fs_current)) (SYNC_LOCAL_FILE data_dir)
   \<and> files (snd (sync data_dir io_yes False (world_of fs_current))) (SYNC_LOCAL_FILE_OLD data_dir)
       = Some (File [1])"
proof -
  have run: "sync data_dir io_yes False (world_of fs_current)
     = (Inr True, snd (sync data_dir io_yes False (world_of fs_current)))"
    by (simp add: example_defs script_defs os_defs)
  have cur: "isfile (files (world_of fs_current)) (SYNC_LOCAL_FILE data_dir)"
    and c: "files (world_of fs_current) (SYNC_LOCAL_FILE data_dir) = Some (File [1])"
    by (simp_all add: example_defs script_defs os_defs)
  show ?thesis using sync_success_backup [OF run] run cur c by simp
qed

text \<open>
  C3 as stated fails. In the state with a previous archive and no current archive, the
  download succeeds, \<^verbatim>\<open>sync()\<close> returns \<^verbatim>\<open>True\<close>, and the previous archive is still there:
  lines 87 to 94 touch it only when a current archive exists.
\<close>

theorem sync_keeps_stale_backup_counterexample:
  "\<not> isfile (files (world_of fs_backup_only)) (SYNC_LOCAL_FILE data_dir)
   \<and> fst (sync data_dir io_yes False (world_of fs_backup_only)) = Inr True
   \<and> files (snd (sync data_dir io_yes False (world_of fs_backup_only))) (SYNC_LOCAL_FILE_OLD data_dir)
       = Some (File [2])"
  by (simp add: example_defs script_defs os_defs)

section \<open>An interrupted request\<close>

text \<open>
  C10. When the request is interrupted from the keyboard (line 110) and the renaming and the
  creation of the directory before it (lines 87 to 97) raise nothing, \<^verbatim>\<open>sync()\<close> returns
  \<^verbatim>\<open>True\<close> and no current archive exists after the call; when a current archive existed
  before the call, it is now the previous archive, so the cache holds a previous archive and
  no current one.
\<close>

theorem sync_interrupted:
  assumes "remote e = KeyboardInterrupt" and "fst (retire_current d (files w)) = None"
  shows "fst (sync d e False w) = Inr True
       \<and> \<not> isfile (files (snd (sync d e False w))) (SYNC_LOCAL_FILE d)
       \<and> (isfile (files w) (SYNC_LOCAL_FILE d) \<longrightarrow>
            files (snd (sync d e False w)) (SYNC_LOCAL_FILE d) = None
            \<and> files (snd (sync d e False w)) (SYNC_LOCAL_FILE_OLD d) = files w (SYNC_LOCAL_FILE d))"
proof -
  obtain f where rc: "retire_current d (files w) = (None, f)"
    using assms(2) by (cases "retire_current d (files w)") simp
  have s: "sync d e False w = (Inr True, w\<lparr>files := f\<rparr>)"
    using rc assms(1) by (simp add: sync_def download_def)
  show ?thesis
    using retire_current_cases [OF rc] s
    by (cases "isfile (files w) (SYNC_LOCAL_FILE d)") (auto simp: isfile_def)
qed

theorem sync_interrupted_witness:
  "remote io_interrupt = KeyboardInterrupt
   \<and> fst (retire_current data_dir (files (world_of fs_current))) = None
   \<and> isfile (files (world_of fs_current)) (SYNC_LOCAL_FILE data_dir)
   \<and> fst (sync data_dir io_interrupt False (world_of fs_current)) = Inr True
   \<and> files (snd (sync data_dir io_interrupt False (world_of fs_current))) (SYNC_LOCAL_FILE data_dir) = None
   \<and> files (snd (sync data_dir io_interrupt False (world_of fs_current))) (SYNC_LOCAL_FILE_OLD data_dir)
       = Some (File [1])"
proof -
  have h: "remote io_interrupt = KeyboardInterrupt"
    "fst (retire_current data_dir (files (world_of fs_current))) = None"
    by (simp_all add: example_defs script_defs os_defs)
  have c: "isfile (files (world_of fs_current)) (SYNC_LOCAL_FILE data_dir)"
    "files (world_of fs_current) (SYNC_LOCAL_FILE data_dir) = Some (File [1])"
    by (simp_all add: example_defs script_defs os_defs)
  show ?thesis using sync_interrupted [OF h] h c by simp
qed

section \<open>Rollback without a previous archive\<close>

text \<open>
  C6. In every state in which no previous archive \<^verbatim>\<open>templates.zip.old\<close> exists,
  \<^verbatim>\<open>sync(rollback=True)\<close> returns \<^verbatim>\<open>True\<close> and changes nothing: the whole state after the
  call, the current archive included, is the state before it.
\<close>

theorem rollback_without_backup_is_noop:
  assumes "\<not> isfile (files w) (SYNC_LOCAL_FILE_OLD d)"
  shows "sync d e True w = (Inr True, w)"
  using assms by (simp add: sync_def rollback_def)

theorem rollback_without_backup_is_noop_witness:
  "\<not> isfile (files (world_of fs_current)) (SYNC_LOCAL_FILE_OLD data_dir)
   \<and> sync data_dir io_yes True (world_of fs_current) = (Inr True, world_of fs_current)
   \<and> files (world_of fs_current) (SYNC_LOCAL_FILE data_dir) = Some (File [1])"
  using rollback_without_backup_is_noop [of "world_of fs_current" data_dir io_yes]
  by (simp add: isfile_def world_of_def fs_current_def fs_dirs_def data_dir_def
      SYNC_LOCAL_FILE_def SYNC_LOCAL_FILE_OLD_def)

section \<open>A declined confirmation\<close>

text \<open>
  C4, as the script has it. When the answer to the confirmation is empty or \<^verbatim>\<open>n\<close>, the
  state is left as it was by both operations: the rollback with a previous archive present
  returns \<^verbatim>\<open>True\<close> (line 72), the reset with a current archive present returns
  \<^verbatim>\<open>False\<close> (line 142).
\<close>

theorem declined_confirmation:
  assumes "answer e = Some a" and "a = [] \<or> a = ''n''"
  shows "(isfile (files w) (SYNC_LOCAL_FILE_OLD d) \<longrightarrow> sync d e True w = (Inr True, w))
       \<and> (isfile (files w) (SYNC_LOCAL_FILE d) \<longrightarrow> reset d e w = (Inr (Some False), w))"
  using assms declined_empty_or_n [of a] by (simp add: sync_def rollback_def reset_def)

theorem declined_confirmation_witness:
  "answer io_empty = Some [] \<and> isfile (files (world_of fs_both)) (SYNC_LOCAL_FILE_OLD data_dir)
   \<and> isfile (files (world_of fs_both)) (SYNC_LOCAL_FILE data_dir)
   \<and> sync data_dir io_empty True (world_of fs_both) = (Inr True, world_of fs_both)
   \<and> reset data_dir io_empty (world_of fs_both) = (Inr (Some False), world_of fs_both)"
proof -
  have a: "answer io_empty = Some []" by (simp add: io_empty_def)
  have b: "isfile (files (world_of fs_both)) (SYNC_LOCAL_FILE_OLD data_dir)"
    "isfile (files (world_of fs_both)) (SYNC_LOCAL_FILE data_dir)"
    by (simp_all add: example_defs script_defs os_defs)
  show ?thesis using declined_confirmation [OF a, of "world_of fs_both" data_dir] a b by simp
qed

text \<open>
  C4 as stated fails for the reset: with a current archive present and the answer \<^verbatim>\<open>n\<close>,
  \<^verbatim>\<open>reset()\<close> returns \<^verbatim>\<open>False\<close>, which is not its success outcome \<^verbatim>\<open>True\<close> of line 147.
\<close>

theorem reset_declined_counterexample:
  "isfile (files (world_of fs_current)) (SYNC_LOCAL_FILE data_dir)
   \<and> answer io_no = Some ''n''
   \<and> reset data_dir io_no (world_of fs_current) = (Inr (Some False), world_of fs_current)
   \<and> fst (reset data_dir io_no (world_of fs_current)) \<noteq> Inr (Some True)"
  by (simp add: example_defs script_defs os_defs)

section \<open>Reset\<close>

text \<open>
  C7. \<^verbatim>\<open>reset()\<close> without a current archive changes nothing. With a current archive and an
  answer that is not a refusal it returns \<^verbatim>\<open>True\<close> and removes the data directory with all
  that is below it (the current archive and the previous archive among it) and nothing else;
  no current archive exists then, so the next \<^verbatim>\<open>list()\<close> takes the branch of line 155 and
  is a \<^verbatim>\<open>sync()\<close> followed by the reading of the archive that the sync has stored.
\<close>

theorem reset_behaviour:
  "(\<not> isfile (files w) (SYNC_LOCAL_FILE d) \<longrightarrow> reset d e w = (Inr None, w))
   \<and> (isfile (files w) (SYNC_LOCAL_FILE d) \<and> answer e = Some a \<and> \<not> declined a \<longrightarrow>
        fst (reset d e w) = Inr (Some True)
        \<and> (\<forall>p. prefix d p \<longrightarrow> files (snd (reset d e w)) p = None)
        \<and> (\<forall>p. \<not> prefix d p \<longrightarrow> files (snd (reset d e w)) p = files w p)
        \<and> \<not> isfile (files (snd (reset d e w))) (SYNC_LOCAL_FILE d)
        \<and> list_templates d unzip e' (snd (reset d e w)) =
            (case sync d e' False (snd (reset d e w)) of
               (Inl err, w1) \<Rightarrow> (Inl err, w1)
             | (Inr synced, w1) \<Rightarrow>
                 (if \<not> synced then (Inr [], w1) else read_catalog d unzip w1)))"
  by (auto simp: reset_def rmtree_def list_templates_def isfile_def SYNC_LOCAL_FILE_def)

theorem reset_behaviour_witness:
  "isfile (files (world_of fs_both)) (SYNC_LOCAL_FILE data_dir)
   \<and> answer io_yes = Some ''Y'' \<and> \<not> declined ''Y''
   \<and> fst (reset data_dir io_yes (world_of fs_both)) = Inr (Some True)
   \<and> files (snd (reset data_dir io_yes (world_of fs_both))) data_dir = None
   \<and> files (snd (reset data_dir io_yes (world_of fs_both))) (SYNC_LOCAL_FILE data_dir) = None
   \<and> files (snd (reset data_dir io_yes (world_of fs_both))) (SYNC_LOCAL_FILE_OLD data_dir) = None
   \<and> files (snd (reset data_dir io_yes (world_of fs_both))) [''var''] = Some Dir
   \<and> fst (list_templates data_dir toy_unzip io_yes (snd (reset data_dir io_yes (world_of fs_both))))
       = Inr [''t'']
   \<and> files (snd (list_templates data_dir toy_unzip io_yes
                   (snd (reset data_dir io_yes (world_of fs_both))))) (SYNC_LOCAL_FILE data_dir)
       = Some (File [2])
   \<and> \<not> isfile (files (world_of fs_dirs)) (SYNC_LOCAL_FILE data_dir)
   \<and> reset data_dir io_yes (world_of fs_dirs) = (Inr None, world_of fs_dirs)"
proof -
  have h: "isfile (files (world_of fs_both)) (SYNC_LOCAL_FILE data_dir)"
    "answer io_yes = Some ''Y''" "\<not> declined ''Y''"
    "\<not> isfile (files (world_of fs_dirs)) (SYNC_LOCAL_FILE data_dir)"
    by (simp_all add: example_defs script_defs os_defs)
  have p: "prefix data_dir data_dir" "prefix data_dir (SYNC_LOCAL_FILE data_dir)"
    "prefix data_dir (SYNC_LOCAL_FILE_OLD data_dir)" "\<not> prefix data_dir [''var'']"
    "files (world_of fs_both) [''var''] = Some Dir"
    by (simp_all add: example_defs script_defs os_defs)
  have l: "fst (list_templates data_dir toy_unzip io_yes (snd (reset data_dir io_yes (world_of fs_both))))
       = Inr [''t'']"
    "files (snd (list_templates data_dir toy_unzip io_yes
                   (snd (reset data_dir io_yes (world_of fs_both))))) (SYNC_LOCAL_FILE data_dir)
       = Some (File [2])"
    by (simp_all add: example_defs script_defs os_defs)
  show ?thesis
    using reset_behaviour [of "world_of fs_both" data_dir io_yes "''Y''" toy_unzip io_yes]
      reset_behaviour [of "world_of fs_dirs" data_dir io_yes "''Y''" toy_unzip io_yes] h p l
    by simp
qed

section \<open>At most one previous archive\<close>

lemma step_below:
  assumes "strict_prefix d p" and "p \<noteq> SYNC_LOCAL_FILE d" and "p \<noteq> SYNC_LOCAL_FILE_OLD d"
    and "files w p = None"
  shows "files (step d ce w) p = None"
proof -
  obtain c e where ce: "ce = (c, e)" by (cases ce)
  have np: "\<not> prefix p d" using assms(1) by (auto simp: strict_prefix_def)
  show ?thesis
  proof (cases c)
    case CmdSync
    then show ?thesis
      using sync_download_frame [of p d e w] assms np ce by (simp add: prefix_file_iff)
  next
    case CmdRollback
    then show ?thesis using rollback_frame [of p d e w] assms ce by (simp add: sync_def)
  next
    case CmdReset
    then show ?thesis using reset_below [of w p d e] assms ce by simp
  qed
qed

lemma run_snoc: "run d (cmds @ [ce]) w = step d ce (run d cmds w)"
  by (simp add: run_def)

lemma run_below:
  assumes "cache_empty d (files w)"
    and "strict_prefix d p" and "p \<noteq> SYNC_LOCAL_FILE d" and "p \<noteq> SYNC_LOCAL_FILE_OLD d"
  shows "files (run d cmds w) p = None"
proof (induction cmds rule: rev_induct)
  case Nil
  then show ?case using assms by (simp add: run_def cache_empty_def)
next
  case (snoc ce cmds)
  then show ?case using step_below [OF assms(2-4)] by (simp add: run_snoc)
qed

lemma backup_created_by_sync:
  assumes "files w (SYNC_LOCAL_FILE_OLD d) = None"
    and "files (step d (c, e) w) (SYNC_LOCAL_FILE_OLD d) \<noteq> None"
  shows "c = CmdSync \<and> isfile (files w) (SYNC_LOCAL_FILE d)
       \<and> files (step d (c, e) w) (SYNC_LOCAL_FILE_OLD d) = files w (SYNC_LOCAL_FILE d)"
proof (cases c)
  case CmdSync
  obtain r f where rc: "retire_current d (files w) = (r, f)" by (cases "retire_current d (files w)")
  have after: "files (step d (c, e) w) (SYNC_LOCAL_FILE_OLD d) = f (SYNC_LOCAL_FILE_OLD d)"
    using CmdSync rc download_files [of "SYNC_LOCAL_FILE_OLD d" d e "w\<lparr>files := f\<rparr>"]
    by (cases r) (simp_all add: sync_def)
  show ?thesis
    using retire_current_cases [OF rc] after assms CmdSync by (cases r) auto
next
  case CmdRollback
  then show ?thesis using assms by (simp add: sync_def rollback_def isfile_def)
next
  case CmdReset
  then show ?thesis using assms reset_below [of w "SYNC_LOCAL_FILE_OLD d" d e] by simp
qed

text \<open>
  C8. Start from a state with nothing below the data directory and run any sequence of the
  commands \<^verbatim>\<open>sync\<close>, \<^verbatim>\<open>sync --rollback\<close> and \<^verbatim>\<open>reset\<close>, whatever the user answers and
  the network delivers. In the state reached, all that exists below the data directory
  apart from the current archive is \<^verbatim>\<open>templates.zip.old\<close>, so there is at most one backup.
  And when a further command takes the state from one without \<^verbatim>\<open>templates.zip.old\<close> to one
  with it, the command is a \<^verbatim>\<open>sync\<close>, a current archive existed before it, and the new
  \<^verbatim>\<open>templates.zip.old\<close> is that archive.
\<close>

theorem at_most_one_backup:
  assumes "cache_empty d (files w)"
  shows "backups d (files (run d cmds w)) \<subseteq> {SYNC_LOCAL_FILE_OLD d}
       \<and> card (backups d (files (run d cmds w))) \<le> 1
       \<and> (\<forall>c e. files (run d cmds w) (SYNC_LOCAL_FILE_OLD d) = None
              \<and> files (step d (c, e) (run d cmds w)) (SYNC_LOCAL_FILE_OLD d) \<noteq> None
            \<longrightarrow> c = CmdSync \<and> isfile (files (run d cmds w)) (SYNC_LOCAL_FILE d)
              \<and> files (step d (c, e) (run d cmds w)) (SYNC_LOCAL_FILE_OLD d)
                  = files (run d cmds w) (SYNC_LOCAL_FILE d))"
proof -
  have sub: "backups d (files (run d cmds w)) \<subseteq> {SYNC_LOCAL_FILE_OLD d}"
  proof
    fix p
    assume "p \<in> backups d (files (run d cmds w))"
    then have p: "strict_prefix d p" "p \<noteq> SYNC_LOCAL_FILE d" "files (run d cmds w) p \<noteq> None"
      by (simp_all add: backups_def)
    have "p = SYNC_LOCAL_FILE_OLD d"
    proof (rule ccontr)
      assume "p \<noteq> SYNC_LOCAL_FILE_OLD d"
      then have "files (run d cmds w) p = None" using run_below [OF assms p(1,2)] by simp
      with p(3) show False by simp
    qed
    then show "p \<in> {SYNC_LOCAL_FILE_OLD d}" by simp
  qed
  have "card (backups d (files (run d cmds w))) \<le> card {SYNC_LOCAL_FILE_OLD d}"
    using sub by (intro card_mono) simp_all
  then have card: "card (backups d (files (run d cmds w))) \<le> 1" by simp
  show ?thesis using sub card backup_created_by_sync by blast
qed

theorem at_most_one_backup_witness:
  "cache_empty data_dir (files (world_of fs_nothing))
   \<and> backups data_dir (files (run data_dir [(CmdSync, io_yes), (CmdSync, io_yes)] (world_of fs_nothing)))
       \<subseteq> {SYNC_LOCAL_FILE_OLD data_dir}
   \<and> files (run data_dir [(CmdSync, io_yes)] (world_of fs_nothing)) (SYNC_LOCAL_FILE_OLD data_dir) = None
   \<and> files (run data_dir [(CmdSync, io_yes)] (world_of fs_nothing)) (SYNC_LOCAL_FILE data_dir)
       = Some (File [2])
   \<and> files (step data_dir (CmdSync, io_yes) (run data_dir [(CmdSync, io_yes)] (world_of fs_nothing)))
         (SYNC_LOCAL_FILE_OLD data_dir) = Some (File [2])"
proof -
  have e: "cache_empty data_dir (files (world_of fs_nothing))"
    by (simp add: cache_empty_def world_of_def fs_nothing_def)
  have r1: "files (run data_dir [(CmdSync, io_yes)] (world_of fs_nothing)) (SYNC_LOCAL_FILE_OLD data_dir) = None"
    "files (run data_dir [(CmdSync, io_yes)] (world_of fs_nothing)) (SYNC_LOCAL_FILE data_dir) = Some (File [2])"
    by (simp_all add: run_def example_defs script_defs os_defs)
  have r2: "files (step data_dir (CmdSync, io_yes) (run data_dir [(CmdSync, io_yes)] (world_of fs_nothing)))
         (SYNC_LOCAL_FILE_OLD data_dir) = Some (File [2])"
    by (simp add: run_def example_defs script_defs os_defs)
  show ?thesis
    using at_most_one_backup [OF e, of "[(CmdSync, io_yes), (CmdSync, io_yes)]"]
      at_most_one_backup [OF e, of "[(CmdSync, io_yes)]"] e r1 r2
    by simp
qed

section \<open>The catalog\<close>

lemma collect_templates_eq:
  "collect_templates zs acc = acc @ map (\<lambda>z. removesuffix_slash (filename z)) (filter is_dir zs)"
  by (induction zs arbitrary: acc) auto

lemma read_catalog_ok:
  "files w (SYNC_LOCAL_FILE d) = Some (File bs) \<Longrightarrow> unzip bs = Some zs \<Longrightarrow>
   read_catalog d unzip w = (Inr (map (\<lambda>z. removesuffix_slash (filename z)) (filter is_dir zs)), w)"
  by (simp add: read_catalog_def ZipFile_def zip_close_def collect_templates_eq)

lemma read_catalog_world: "snd (read_catalog d unzip w) = w"
  by (simp add: read_catalog_def ZipFile_def zip_close_def split: option.splits node.splits)

lemma list_templates_frame:
  assumes "\<not> prefix p (SYNC_LOCAL_FILE d)" and "\<not> prefix p (SYNC_LOCAL_FILE_OLD d)"
  shows "files (snd (list_templates d unzip e w)) p = files w p"
proof (cases "isfile (files w) (SYNC_LOCAL_FILE d)")
  case True
  then show ?thesis by (simp add: list_templates_def read_catalog_world)
next
  case False
  obtain r w1 where s: "sync d e False w = (r, w1)" by (cases "sync d e False w")
  have w1: "files w1 p = files w p" using sync_download_frame [OF assms, of e w] s by simp
  show ?thesis
    using False s w1 read_catalog_world [of d unzip w1]
    by (cases r) (auto simp: list_templates_def)
qed

lemma list_templates_present:
  "isfile (files w) (SYNC_LOCAL_FILE d) \<Longrightarrow> snd (list_templates d unzip e w) = w"
  by (simp add: list_templates_def read_catalog_world)

lemma list_templates_open_archives:
  "open_archives (snd (list_templates d unzip e w)) = open_archives w"
proof (cases "isfile (files w) (SYNC_LOCAL_FILE d)")
  case True
  then show ?thesis by (simp add: list_templates_def read_catalog_world)
next
  case False
  obtain r w1 where s: "sync d e False w = (r, w1)" by (cases "sync d e False w")
  have "open_archives w1 = open_archives w" using sync_open_archives [of d e False w] s by simp
  then show ?thesis
    using False s read_catalog_world [of d unzip w1] by (cases r) (auto simp: list_templates_def)
qed

text \<open>
  C2, as the script has it. With a cached archive, \<^verbatim>\<open>list()\<close> returns the names, without
  the separator at the end, of all directory members of the archive, in the order of the
  archive, whatever their depth, and leaves the state as it was. The specification's
  catalog of top-level directories is the part of that result whose names hold no
  separator.
\<close>

theorem list_templates_every_directory:
  assumes "files w (SYNC_LOCAL_FILE d) = Some (File bs)" and "unzip bs = Some zs"
  shows "list_templates d unzip e w =
           (Inr (map (\<lambda>z. removesuffix_slash (filename z)) (filter is_dir zs)), w)
         \<and> spec_top_level_templates zs =
           filter (\<lambda>n. CHR ''/'' \<notin> set n)
             (map (\<lambda>z. removesuffix_slash (filename z)) (filter is_dir zs))"
  using assms
  by (simp add: list_templates_def isfile_def read_catalog_ok spec_top_level_templates_def
      filter_map comp_def)

theorem list_templates_every_directory_witness:
  "files (world_of fs_flat) (SYNC_LOCAL_FILE data_dir) = Some (File [2])
   \<and> toy_unzip [2] = Some flat_archive
   \<and> list_templates data_dir toy_unzip io_yes (world_of fs_flat) = (Inr [''t''], world_of fs_flat)
   \<and> spec_top_level_templates flat_archive = [''t'']"
proof -
  have h: "files (world_of fs_flat) (SYNC_LOCAL_FILE data_dir) = Some (File [2])"
    "toy_unzip [2] = Some flat_archive"
    by (simp_all add: example_defs script_defs)
  have m: "map (\<lambda>z. removesuffix_slash (filename z)) (filter is_dir flat_archive) = [''t'']"
    by (simp add: example_defs script_defs)
  show ?thesis
    using list_templates_every_directory
      [of "world_of fs_flat" data_dir "[2]" toy_unzip flat_archive io_yes] h m
    by simp
qed

text \<open>
  C2 as stated fails. For the archive with the members \<^verbatim>\<open>t/\<close>, \<^verbatim>\<open>t/sub/\<close> and
  \<^verbatim>\<open>t/sub/b.txt\<close>, \<^verbatim>\<open>list()\<close> returns \<^verbatim>\<open>t\<close> and \<^verbatim>\<open>t/sub\<close>: the directory one level down is
  in the result, whereas the specification's catalog is \<^verbatim>\<open>t\<close> alone.
\<close>

theorem list_templates_nested_counterexample:
  "toy_unzip [3] = Some subdir_archive
   \<and> files (world_of fs_subdir) (SYNC_LOCAL_FILE data_dir) = Some (File [3])
   \<and> fst (list_templates data_dir toy_unzip io_yes (world_of fs_subdir)) = Inr [''t'', ''t/sub'']
   \<and> spec_top_level_templates subdir_archive = [''t'']
   \<and> CHR ''/'' \<in> set ''t/sub''"
  by (simp add: example_defs script_defs os_defs collect_templates_eq spec_top_level_templates_def)

section \<open>Generation\<close>

text \<open>
  C5, as the script has it. When the \<^verbatim>\<open>list()\<close> that \<^verbatim>\<open>generate\<close> calls first returns
  names and the template is not among them, \<^verbatim>\<open>generate\<close> returns \<^verbatim>\<open>False\<close> in the state
  that \<^verbatim>\<open>list()\<close> left: it writes nothing itself. When a current archive exists, that state
  is the state before the call, so nothing is written anywhere. When no current archive
  exists, the \<^verbatim>\<open>list()\<close> synchronises first and writes into the cache; then nothing at or
  below the destination has changed provided the destination does not hold the two
  archives of the cache.
\<close>

theorem generate_unknown_template:
  assumes "list_templates d unzip e w = (Inr names, w1)" and "template \<notin> set names"
  shows "generate d unzip e template destination w = (Inr False, w1)
       \<and> (isfile (files w) (SYNC_LOCAL_FILE d) \<longrightarrow> w1 = w)
       \<and> (\<not> prefix destination (SYNC_LOCAL_FILE d) \<and> \<not> prefix destination (SYNC_LOCAL_FILE_OLD d)
            \<longrightarrow> (\<forall>p. prefix destination p \<longrightarrow> files w1 p = files w p))"
proof (intro conjI impI allI)
  show "generate d unzip e template destination w = (Inr False, w1)"
    using assms by (simp add: generate_def)
next
  assume "isfile (files w) (SYNC_LOCAL_FILE d)"
  then show "w1 = w" using list_templates_present [of w d unzip e] assms(1) by simp
next
  fix p
  assume out: "\<not> prefix destination (SYNC_LOCAL_FILE d) \<and> \<not> prefix destination (SYNC_LOCAL_FILE_OLD d)"
    and p: "prefix destination p"
  have "\<not> prefix p (SYNC_LOCAL_FILE d)" "\<not> prefix p (SYNC_LOCAL_FILE_OLD d)"
    using out p by (auto dest: prefix_order.trans)
  then show "files w1 p = files w p"
    using list_templates_frame [of p d unzip e w] assms(1) by simp
qed

theorem generate_unknown_template_witness:
  "list_templates data_dir toy_unzip io_yes (world_of fs_flat) = (Inr [''t''], world_of fs_flat)
   \<and> ''web'' \<notin> set [''t'']
   \<and> isfile (files (world_of fs_flat)) (SYNC_LOCAL_FILE data_dir)
   \<and> generate data_dir toy_unzip io_yes ''web'' [''out''] (world_of fs_flat) = (Inr False, world_of fs_flat)
   \<and> list_templates data_dir toy_unzip io_yes (world_of fs_dirs)
       = (Inr [''t''], snd (list_templates data_dir toy_unzip io_yes (world_of fs_dirs)))
   \<and> \<not> prefix [''out''] (SYNC_LOCAL_FILE data_dir) \<and> \<not> prefix [''out''] (SYNC_LOCAL_FILE_OLD data_dir)
   \<and> prefix [''out''] [''out'', ''a.txt'']
   \<and> generate data_dir toy_unzip io_yes ''web'' [''out''] (world_of fs_dirs)
       = (Inr False, snd (list_templates data_dir toy_unzip io_yes (world_of fs_dirs)))
   \<and> files (snd (list_templates data_dir toy_unzip io_yes (world_of fs_dirs))) [''out'', ''a.txt'']
       = files (world_of fs_dirs) [''out'', ''a.txt'']"
proof -
  have l: "list_templates data_dir toy_unzip io_yes (world_of fs_flat) = (Inr [''t''], world_of fs_flat)"
    by (simp add: example_defs script_defs os_defs)
  have l': "list_templates data_dir toy_unzip io_yes (world_of fs_dirs)
     = (Inr [''t''], snd (list_templates data_dir toy_unzip io_yes (world_of fs_dirs)))"
    by (simp add: example_defs script_defs os_defs)
  have n: "''web'' \<notin> set [''t'']" by simp
  have rest: "isfile (files (world_of fs_flat)) (SYNC_LOCAL_FILE data_dir)"
    "\<not> prefix [''out''] (SYNC_LOCAL_FILE data_dir)" "\<not> prefix [''out''] (SYNC_LOCAL_FILE_OLD data_dir)"
    "prefix [''out''] [''out'', ''a.txt'']"
    by (simp_all add: example_defs script_defs os_defs)
  show ?thesis
    using generate_unknown_template [OF l n, of "[''out'']"]
      generate_unknown_template [OF l' n, of "[''out'']"] l l' rest
    by simp
qed

text \<open>
  C5 as stated fails. No current archive exists, the data directory \<^verbatim>\<open>/var/srcinit\<close> lies
  below the destination \<^verbatim>\<open>/var\<close>, and the template \<^verbatim>\<open>web\<close> is not in the catalog:
  \<^verbatim>\<open>generate\<close> returns \<^verbatim>\<open>False\<close>, and the \<^verbatim>\<open>list()\<close> of line 180 has synchronised
  (lines 155 to 157) and written \<^verbatim>\<open>/var/srcinit/templates.zip\<close>, a file below the
  destination that did not exist before the call.
\<close>

theorem generate_unknown_template_sync_counterexample:
  "\<not> isfile (files (world_of fs_dirs)) (SYNC_LOCAL_FILE data_dir)
   \<and> fst (list_templates data_dir toy_unzip io_yes (world_of fs_dirs)) = Inr [''t'']
   \<and> ''web'' \<notin> set [''t'']
   \<and> fst (generate data_dir toy_unzip io_yes ''web'' [''var''] (world_of fs_dirs)) = Inr False
   \<and> prefix [''var''] (SYNC_LOCAL_FILE data_dir)
   \<and> files (world_of fs_dirs) (SYNC_LOCAL_FILE data_dir) = None
   \<and> files (snd (generate data_dir toy_unzip io_yes ''web'' [''var''] (world_of fs_dirs)))
        (SYNC_LOCAL_FILE data_dir) = Some (File [2])"
  by (simp add: example_defs script_defs os_defs)

text \<open>
  A \<^verbatim>\<open>generate\<close> that returns \<^verbatim>\<open>True\<close> has opened the archive once more than it has
  closed it: line 193 opens it, and no line closes it.
\<close>

lemma generate_leaves_archive_open:
  assumes "fst (generate d unzip e template destination w) = Inr True"
  shows "open_archives (snd (generate d unzip e template destination w)) = open_archives w + 1"
proof -
  obtain r w1 where l: "list_templates d unzip e w = (r, w1)"
    by (cases "list_templates d unzip e w")
  have w1: "open_archives w1 = open_archives w"
    using list_templates_open_archives [of d unzip e w] l by simp
  show ?thesis
    using assms l w1
    by (auto simp: generate_def ZipFile_def
        split: sum.splits if_splits option.splits node.splits prod.splits)
qed

text \<open>
  C1, at the input on which the script fails. The archive holds the members \<^verbatim>\<open>t/\<close>,
  \<^verbatim>\<open>t/a.txt\<close> and \<^verbatim>\<open>t/sub/b.txt\<close>, the destination \<^verbatim>\<open>/out\<close> does not exist.
  \<^verbatim>\<open>generate("t", "/out")\<close> creates \<^verbatim>\<open>/out\<close>, writes \<^verbatim>\<open>/out/a.txt\<close> with the bytes of the
  member and nothing for the member \<^verbatim>\<open>t/\<close>, and then raises \<^verbatim>\<open>FileNotFoundError\<close> at
  \<^verbatim>\<open>open("/out/sub/b.txt", "wb")\<close>, since line 204 creates the destination only:
  \<^verbatim>\<open>/out/sub/b.txt\<close> is not produced.
\<close>

theorem generate_nested_template_fails:
  "fst (generate data_dir toy_unzip io_yes ''t'' [''out''] (world_of fs_current)) = Inl FileNotFoundError
   \<and> files (snd (generate data_dir toy_unzip io_yes ''t'' [''out''] (world_of fs_current)))
        [''out''] = Some Dir
   \<and> files (snd (generate data_dir toy_unzip io_yes ''t'' [''out''] (world_of fs_current)))
        [''out'', ''a.txt''] = Some (File [97])
   \<and> files (snd (generate data_dir toy_unzip io_yes ''t'' [''out''] (world_of fs_current)))
        [''out'', ''sub'', ''b.txt''] = None"
  by (simp add: example_defs script_defs os_defs)

text \<open>
  The same with the directory member \<^verbatim>\<open>t/sub/\<close> in the archive: the script takes the
  member for a file and fails at \<^verbatim>\<open>open("/out/sub/", "wb")\<close>.
\<close>

lemma generate_directory_member_fails:
  "fst (generate data_dir toy_unzip io_yes ''t'' [''out''] (world_of fs_subdir)) = Inl IsADirectoryError"
  by (simp add: example_defs script_defs os_defs)


end
